theory Spec2Isabelle
  imports Complex_Main "HOL-Library.Multiset"
begin

section \<open>Data model (types.ts)\<close>

text \<open>
  The interfaces of \<^verbatim>\<open>types.ts\<close> as records. A field whose source name is a HOL
  constant (\<^verbatim>\<open>id\<close>, \<^verbatim>\<open>image\<close>) or a usual variable name (\<^verbatim>\<open>x\<close>, \<^verbatim>\<open>y\<close>, \<^verbatim>\<open>z\<close>)
  carries a suffix. Optional fields are options. JavaScript numbers that hold screen
  coordinates are idealised as reals; the score counters only ever hold small
  integers, \<^verbatim>\<open>NaN\<close> or \<^verbatim>\<open>undefined\<close> and are modelled by \<open>jsnum\<close> below.
\<close>

record WordItem =
  id_item :: string
  word :: string
  english :: string
  emoji :: string
  image_item :: "string option"
  soundAudio :: "string option"

record GameUnit =
  id_unit :: string
  title :: string
  color :: string
  icon :: string
  words :: "WordItem list"

record Landmark =
  x_lm :: real
  y_lm :: real
  z_lm :: real
  visibility :: real

section \<open>Option generation (GameLevel, generateOptions)\<close>

text \<open>
  \<^verbatim>\<open>xs.sort(() => 0.5 - Math.random())\<close> rearranges \<^verbatim>\<open>xs\<close> in an order that depends on
  the random source and on the engine's sorting algorithm; whatever the order, the
  result holds the same elements. The two shuffles of \<^verbatim>\<open>generateOptions\<close> are
  therefore parameters, and \<open>is_shuffle\<close> says what is known of them.
\<close>

definition is_shuffle :: "('a list \<Rightarrow> 'a list) \<Rightarrow> bool" where
  "is_shuffle f = (\<forall>xs. mset (f xs) = mset xs)"

text \<open>
  \<^verbatim>\<open>
  const generateOptions = (allWords, correctWord) => {
      const others = allWords.filter((w) => w.id !== correctWord.id);
      const shuffledOthers = others.sort(() => 0.5 - Math.random()).slice(0, 2);
      return [...shuffledOthers, correctWord].sort(() => 0.5 - Math.random());
  };
  \<close>
\<close>

definition generateOptions ::
  "(WordItem list \<Rightarrow> WordItem list) \<Rightarrow> (WordItem list \<Rightarrow> WordItem list) \<Rightarrow>
   WordItem list \<Rightarrow> WordItem \<Rightarrow> WordItem list" where
  "generateOptions shuffle1 shuffle2 allWords correctWord =
     (let others = filter (\<lambda>w. id_item w \<noteq> id_item correctWord) allWords;
          shuffledOthers = take 2 (shuffle1 others)
      in shuffle2 (shuffledOthers @ [correctWord]))"


section \<open>JavaScript values used by the score board\<close>

text \<open>
  \<^verbatim>\<open>scores\<close> is a JavaScript array of numbers. Reading past its end gives
  \<^verbatim>\<open>undefined\<close>, \<^verbatim>\<open>undefined + 1\<close> is \<^verbatim>\<open>NaN\<close>, writing past its end extends
  the array (the holes read as \<^verbatim>\<open>undefined\<close>), and every comparison with
  \<^verbatim>\<open>NaN\<close> or \<^verbatim>\<open>undefined\<close> is false. Scores are counters that start at 0 and
  grow by 1, far below \<open>2 ^ 53\<close>, so the numeric case is an integer.
\<close>

datatype jsnum = Num int | NaN | Undefined

definition js_get :: "jsnum list \<Rightarrow> nat \<Rightarrow> jsnum" where
  "js_get xs i = (if i < length xs then xs ! i else Undefined)"

definition js_set :: "jsnum list \<Rightarrow> nat \<Rightarrow> jsnum \<Rightarrow> jsnum list" where
  "js_set xs i v =
     (if i < length xs then xs[i := v]
      else xs @ replicate (i - length xs) Undefined @ [v])"

fun js_add1 :: "jsnum \<Rightarrow> jsnum" where
  "js_add1 (Num n) = Num (n + 1)"
| "js_add1 NaN = NaN"
| "js_add1 Undefined = NaN"

fun js_gt :: "jsnum \<Rightarrow> jsnum \<Rightarrow> bool" where
  "js_gt (Num a) (Num b) = (a > b)"
| "js_gt _ _ = False"

section \<open>Session state of the GameLevel component\<close>

datatype phase = playing | feedback_correct | feedback_wrong

datatype game_mode = classic | translation

text \<open>
  The user-visible texts of the source are Chinese string literals; each literal is
  one constructor here, with the interpolated value as its argument:
  \<open>MsgPlayerWon k\<close> is the per-round "player k won" text, \<open>MsgGreat\<close> the
  single-player praise, \<open>MsgTryAgain\<close> the wrong-answer text, \<open>MsgUnitComplete\<close> the
  "unit complete" text, \<open>MsgPlayerOneWins\<close>, \<open>MsgPlayerTwoWins\<close> and \<open>MsgTie\<close> the
  three final announcements of \<^verbatim>\<open>nextLevel\<close>, \<open>MsgFound w\<close> the "found w" utterance,
  \<open>MsgFindEnglish e\<close> and \<open>MsgFindWord w\<close> the two prompts, \<open>MsgEmpty\<close> the empty
  string.
\<close>

datatype message =
    MsgEmpty
  | MsgPlayerWon nat
  | MsgGreat
  | MsgTryAgain
  | MsgUnitComplete
  | MsgPlayerOneWins
  | MsgPlayerTwoWins
  | MsgTie
  | MsgFound string
  | MsgFindEnglish string
  | MsgFindWord string

record Explosion =
  id_ex :: nat
  x_ex :: real
  y_ex :: real

text \<open>The \<^verbatim>\<open>useState\<close> cells of \<^verbatim>\<open>GameLevel\<close>.\<close>

record GameLevelState =
  currentWordIndex :: nat
  scores :: "jsnum list"
  gameState :: phase
  options :: "WordItem list"
  feedbackMessage :: message
  winner :: "nat option"
  wrongSelectionId :: "string option"
  explosions :: "Explosion list"

text \<open>The props of \<^verbatim>\<open>GameLevel\<close> (\<^verbatim>\<open>onExit\<close> is the effect \<open>CallOnExit\<close> below).\<close>

record GameLevelProps =
  unit_prop :: GameUnit
  numPlayers :: nat
  gameMode :: game_mode

text \<open>
  A function of the component body closes over the values of the render that created
  it. A callback handed to \<^verbatim>\<open>setTimeout\<close> is therefore recorded together with the
  render it was created in: \<open>CbNextLevel r\<close> is \<^verbatim>\<open>nextLevel\<close> of the render whose
  state was \<open>r\<close>. The other callbacks read no state of their render.
\<close>

datatype callback =
    CbExplosionCleanup nat
  | CbNextLevel GameLevelState
  | CbWrongReset
  | CbSpeakPrompt WordItem
  | CbOnExit

datatype sound = SndCorrect | SndWrong

datatype effect =
    SetTimeout nat callback
  | PlaySound sound
  | Speak message
  | CallOnExit
  | CallOnStart

datatype error = TypeError

definition initialState :: GameLevelState where
  "initialState =
     \<lparr>currentWordIndex = 0, scores = [Num 0, Num 0], gameState = playing, options = [],
      feedbackMessage = MsgEmpty, winner = None, wrongSelectionId = None, explosions = []\<rparr>"

text \<open>
  \<^verbatim>\<open>const currentTarget = useMemo(() => unit.words[currentWordIndex], ...)\<close>:
  \<^verbatim>\<open>undefined\<close> (here \<open>None\<close>) when the index is out of range.
\<close>

definition currentTarget :: "GameLevelProps \<Rightarrow> GameLevelState \<Rightarrow> WordItem option" where
  "currentTarget p s =
     (if currentWordIndex s < length (words (unit_prop p))
      then Some (words (unit_prop p) ! currentWordIndex s) else None)"

section \<open>Transitions of the game state machine\<close>

text \<open>
  \<^verbatim>\<open>nextLevel\<close> of the render \<open>r\<close>, run on the state \<open>s\<close> the component has when the
  timer fires. It reads \<^verbatim>\<open>currentWordIndex\<close> and \<^verbatim>\<open>scores\<close> from its own render;
  \<^verbatim>\<open>setCurrentWordIndex(prev => prev + 1)\<close> is the only update that reads the
  state at the time of the call. \<^verbatim>\<open>unit.words.length - 1\<close> is \<open>-1\<close> for an empty list,
  so the comparison is on integers.
\<close>

definition finalMsg :: "GameLevelProps \<Rightarrow> jsnum list \<Rightarrow> message" where
  "finalMsg p sc =
     (if numPlayers p > 1 then
        (if js_gt (js_get sc 0) (js_get sc 1) then MsgPlayerOneWins
         else if js_gt (js_get sc 1) (js_get sc 0) then MsgPlayerTwoWins
         else MsgTie)
      else MsgUnitComplete)"

definition nextLevel ::
  "GameLevelProps \<Rightarrow> GameLevelState \<Rightarrow> GameLevelState \<Rightarrow> GameLevelState \<times> effect list" where
  "nextLevel p r s =
     (let s1 = s\<lparr>winner := None, wrongSelectionId := None\<rparr> in
      if int (currentWordIndex r) < int (length (words (unit_prop p))) - 1 then
        (s1\<lparr>currentWordIndex := currentWordIndex s1 + 1, gameState := playing,
            feedbackMessage := MsgEmpty\<rparr>, [])
      else
        (s1\<lparr>feedbackMessage := MsgUnitComplete\<rparr>,
         [Speak (finalMsg p (scores r)), SetTimeout 4000 CbOnExit]))"

text \<open>
  \<^verbatim>\<open>handleSelection\<close> of the render \<open>r\<close>, called with Date.now() = \<open>now\<close>, updating
  the pending state \<open>s\<close> (for the first call after a render, \<open>s = r\<close>). Every setter
  but \<^verbatim>\<open>setExplosions\<close> is given a value computed from the render. With
  \<^verbatim>\<open>currentTarget\<close> undefined, \<^verbatim>\<open>currentTarget.id\<close> throws a TypeError.
\<close>

definition handleSelection ::
  "GameLevelProps \<Rightarrow> nat \<Rightarrow> GameLevelState \<Rightarrow> WordItem \<Rightarrow> nat \<Rightarrow> real \<Rightarrow> real \<Rightarrow>
   GameLevelState \<Rightarrow> error + GameLevelState \<times> effect list" where
  "handleSelection p now r selected playerIdx x y s =
     (if gameState r \<noteq> playing then Inr (s, [])
      else case currentTarget p r of
        None \<Rightarrow> Inl TypeError
      | Some target \<Rightarrow>
          if id_item selected = id_item target then
            (let newScores = js_set (scores r) playerIdx (js_add1 (js_get (scores r) playerIdx));
                 winMsg = (if numPlayers p > 1 then MsgPlayerWon (playerIdx + 1) else MsgGreat);
                 newExplosion = \<lparr>id_ex = now, x_ex = x, y_ex = y\<rparr>
             in Inr (s\<lparr>gameState := feedback_correct, winner := Some playerIdx,
                       scores := newScores, feedbackMessage := winMsg,
                       explosions := explosions s @ [newExplosion]\<rparr>,
                     [SetTimeout 1000 (CbExplosionCleanup now), PlaySound SndCorrect,
                      Speak (MsgFound (word selected)), SetTimeout 2000 (CbNextLevel r)]))
          else
            Inr (s\<lparr>gameState := feedback_wrong, wrongSelectionId := Some (id_item selected),
                    feedbackMessage := MsgTryAgain\<rparr>,
                 [PlaySound SndWrong, Speak MsgTryAgain, SetTimeout 1000 CbWrongReset]))"

text \<open>What a timer does when it fires on the state \<open>s\<close>.\<close>

fun runCallback ::
  "GameLevelProps \<Rightarrow> callback \<Rightarrow> GameLevelState \<Rightarrow> GameLevelState \<times> effect list" where
  "runCallback p (CbExplosionCleanup i) s =
     (s\<lparr>explosions := filter (\<lambda>e. id_ex e \<noteq> i) (explosions s)\<rparr>, [])"
| "runCallback p (CbNextLevel r) s = nextLevel p r s"
| "runCallback p CbWrongReset s =
     (s\<lparr>gameState := playing, feedbackMessage := MsgEmpty, winner := None,
        wrongSelectionId := None\<rparr>, [])"
| "runCallback p (CbSpeakPrompt t) s =
     (s, [Speak (if gameMode p = translation then MsgFindEnglish (english t)
                 else MsgFindWord (word t))])"
| "runCallback p CbOnExit s = (s, [CallOnExit])"

text \<open>
  The effect that sets up the options, with dependencies
  \<^verbatim>\<open>[currentTarget, unit.words, gameMode]\<close>. It runs after the first render
  (\<open>prev = None\<close>) and after a render whose dependencies differ from those of the
  render before (\<open>prev = Some r\<close>); the props do not change during a session, so the
  only dependency that can differ is \<^verbatim>\<open>currentTarget\<close>. Dependencies are compared
  by identity: the words of a unit are distinct objects, so the identity of
  \<^verbatim>\<open>currentTarget\<close> is its position in the word list, and \<^verbatim>\<open>undefined\<close> is
  identical to itself.
\<close>

definition targetRef :: "GameLevelProps \<Rightarrow> GameLevelState \<Rightarrow> nat option" where
  "targetRef p s =
     (if currentWordIndex s < length (words (unit_prop p))
      then Some (currentWordIndex s) else None)"

definition optionsEffect ::
  "(WordItem list \<Rightarrow> WordItem list) \<Rightarrow> (WordItem list \<Rightarrow> WordItem list) \<Rightarrow>
   GameLevelProps \<Rightarrow> GameLevelState option \<Rightarrow> GameLevelState \<Rightarrow> GameLevelState \<times> effect list" where
  "optionsEffect shuffle1 shuffle2 p prev s =
     (if (case prev of None \<Rightarrow> True | Some r \<Rightarrow> targetRef p r \<noteq> targetRef p s) then
        (case currentTarget p s of
           None \<Rightarrow> (s, [])
         | Some t \<Rightarrow>
             (s\<lparr>options := generateOptions shuffle1 shuffle2 (words (unit_prop p)) t\<rparr>,
              [SetTimeout 500 (CbSpeakPrompt t)]))
      else (s, []))"

section \<open>Landmark sorter (GameLevel and MotionStart, sortedLandmarks)\<close>

text \<open>
  \<^verbatim>\<open>
  if (landmarks.length === 0) return [];
  return [...landmarks].sort((a, b) => {
      const ax = 1 - (a[0]?.x || 0.5);
      const bx = 1 - (b[0]?.x || 0.5);
      return ax - bx;
  });
  \<close>
  \<^verbatim>\<open>v || 0.5\<close> is \<open>0.5\<close> when \<^verbatim>\<open>v\<close> is \<^verbatim>\<open>undefined\<close> and also when \<^verbatim>\<open>v\<close> is
  the number 0. The comparator orders by this key, and \<^verbatim>\<open>Array.prototype.sort\<close>
  with a consistent comparator is a stable ascending sort, which \<open>sort_key\<close> is.
\<close>

definition sortKey :: "Landmark list \<Rightarrow> real" where
  "sortKey a =
     1 - (case a of [] \<Rightarrow> 0.5 | nose # _ \<Rightarrow> if x_lm nose = 0 then 0.5 else x_lm nose)"

definition sortedLandmarks :: "Landmark list list \<Rightarrow> Landmark list list" where
  "sortedLandmarks landmarks = (if landmarks = [] then [] else sort_key sortKey landmarks)"

text \<open>
  The key as the specification words it: the mirrored horizontal nose position
  \<open>1 - nose.x\<close>, with \<open>x = 0.5\<close> for a person whose nose landmark is absent.
\<close>

definition spec_mirroredNoseX :: "Landmark list \<Rightarrow> real" where
  "spec_mirroredNoseX a = 1 - (case a of [] \<Rightarrow> 0.5 | nose # _ \<Rightarrow> x_lm nose)"

section \<open>Collision loop of GameLevel\<close>

text \<open>
  The centre of the box with index \<open>boxIdx\<close> for the player \<open>playerIdx\<close>; the vertical
  centre is the constant \<open>boxCY\<close>.
\<close>

definition boxCX :: "nat \<Rightarrow> nat \<Rightarrow> nat \<Rightarrow> real" where
  "boxCX n playerIdx boxIdx =
     (if n = 1 then
        (if boxIdx = 0 then 0.2 else if boxIdx = 1 then 0.5 else if boxIdx = 2 then 0.8
         else 0.5)
      else (if playerIdx = 0 then 0 else 0.5) + (real (boxIdx * 2 + 1) / 6) * 0.5)"

definition boxCY :: real where
  "boxCY = 0.3"

type_synonym selection = "WordItem \<times> nat \<times> real \<times> real"

text \<open>
  The body of \<^verbatim>\<open>options.forEach((opt, boxIdx) => ...)\<close> for one player whose nose is
  tracked: one entry per option, in order, holding the arguments \<^verbatim>\<open>handleSelection\<close>
  would get and the outcome of the test \<^verbatim>\<open>distance < threshold\<close>. \<open>ct\<close> is the
  constant \<^verbatim>\<open>COLLISION_THRESHOLD\<close> of \<^verbatim>\<open>constants.ts\<close>, a parameter here.
\<close>

definition zoneTest :: "real \<Rightarrow> nat \<Rightarrow> nat \<Rightarrow> Landmark \<Rightarrow> nat \<Rightarrow> bool" where
  "zoneTest ct n playerIdx nose boxIdx =
     (let headX = 1 - x_lm nose;
          headY = y_lm nose - 0.12;
          dx = headX - boxCX n playerIdx boxIdx;
          dy = headY - boxCY;
          threshold = (if n = 1 then ct else ct * 0.8);
          distance = sqrt (dx * dx + dy * dy)
      in distance < threshold)"

definition zoneChecks ::
  "real \<Rightarrow> nat \<Rightarrow> WordItem list \<Rightarrow> nat \<Rightarrow> Landmark \<Rightarrow> (selection \<times> bool) list" where
  "zoneChecks ct n opts playerIdx nose =
     map (\<lambda>(boxIdx, opt).
            ((opt, playerIdx, boxCX n playerIdx boxIdx, boxCY),
             zoneTest ct n playerIdx nose boxIdx))
         (enumerate 0 opts)"

text \<open>
  One iteration of \<^verbatim>\<open>for (let playerIdx = 0; playerIdx < numPlayers; playerIdx++)\<close>:
  the calls of \<^verbatim>\<open>handleSelection\<close> it makes, in order.
\<close>

definition playerSelections ::
  "real \<Rightarrow> nat \<Rightarrow> WordItem list \<Rightarrow> Landmark list list \<Rightarrow> nat \<Rightarrow> selection list" where
  "playerSelections ct n opts sortedLms playerIdx =
     (if playerIdx < length sortedLms then
        (case sortedLms ! playerIdx of
           [] \<Rightarrow> []
         | nose # _ \<Rightarrow>
             if visibility nose > 0.5
             then map fst (filter snd (zoneChecks ct n opts playerIdx nose))
             else [])
      else [])"

definition collisionSelections ::
  "real \<Rightarrow> GameLevelProps \<Rightarrow> GameLevelState \<Rightarrow> Landmark list list \<Rightarrow> selection list" where
  "collisionSelections ct p r sortedLms =
     (if gameState r \<noteq> playing then []
      else if sortedLms = [] then []
      else concat (map (playerSelections ct (numPlayers p) (options r) sortedLms)
                       [0..<numPlayers p]))"

text \<open>
  The calls of one run of the effect all come from the same render \<open>r\<close>; the state
  updates they queue accumulate in the pending state. A TypeError ends the run.
\<close>

fun runSelections ::
  "GameLevelProps \<Rightarrow> nat \<Rightarrow> GameLevelState \<Rightarrow> selection list \<Rightarrow>
   GameLevelState \<times> effect list \<Rightarrow> error + GameLevelState \<times> effect list" where
  "runSelections p now r [] acc = Inr acc"
| "runSelections p now r ((opt, playerIdx, x, y) # rest) (s, effs) =
     (case handleSelection p now r opt playerIdx x y s of
        Inl e \<Rightarrow> Inl e
      | Inr (s', effs') \<Rightarrow> runSelections p now r rest (s', effs @ effs'))"

definition collisionEffect ::
  "real \<Rightarrow> GameLevelProps \<Rightarrow> nat \<Rightarrow> GameLevelState \<Rightarrow> Landmark list list \<Rightarrow>
   error + GameLevelState \<times> effect list" where
  "collisionEffect ct p now r sortedLms =
     runSelections p now r (collisionSelections ct p r sortedLms) (r, [])"

section \<open>Start button of MotionStart\<close>

text \<open>
  The loop \<^verbatim>\<open>for (let i = 0; i < numPlayers; i++)\<close> over the remaining player
  indices, with its \<^verbatim>\<open>continue\<close> and its \<^verbatim>\<open>break\<close>; the result is the flag
  \<^verbatim>\<open>hit\<close>.
\<close>

definition buttonTest :: "Landmark \<Rightarrow> bool" where
  "buttonTest nose =
     (let buttonX = 0.5; buttonY = 0.3; buttonRadius = 0.15;
          headX = 1 - x_lm nose;
          headY = y_lm nose - 0.12;
          dx = headX - buttonX;
          dy = headY - buttonY;
          dist = sqrt (dx * dx + dy * dy)
      in dist < buttonRadius)"

fun startHit :: "Landmark list list \<Rightarrow> nat list \<Rightarrow> bool" where
  "startHit sortedLms [] = False"
| "startHit sortedLms (i # rest) =
     (if i < length sortedLms then
        (case sortedLms ! i of
           [] \<Rightarrow> startHit sortedLms rest
         | nose # _ \<Rightarrow>
             if visibility nose > 0.5 then
               (if buttonTest nose then True else startHit sortedLms rest)
             else startHit sortedLms rest)
      else startHit sortedLms rest)"

text \<open>
  One run of the effect on the rendered \<^verbatim>\<open>triggerCount\<close>: the new counter and the
  effects (\<open>CallOnStart\<close> is the call of \<^verbatim>\<open>onStart\<close>).
\<close>

definition startEffect :: "nat \<Rightarrow> Landmark list list \<Rightarrow> nat \<Rightarrow> nat \<times> effect list" where
  "startEffect n sortedLms triggerCount =
     (if sortedLms = [] then (triggerCount, [])
      else if startHit sortedLms [0..<n] then
        (if triggerCount > 20 then (triggerCount, [PlaySound SndCorrect, CallOnStart])
         else (triggerCount + 1, []))
      else (0, []))"

definition motionStartTick :: "nat \<Rightarrow> Landmark list list \<Rightarrow> nat \<Rightarrow> nat \<times> effect list" where
  "motionStartTick n landmarks triggerCount =
     startEffect n (sortedLandmarks landmarks) triggerCount"

text \<open>
  The effect lists \<^verbatim>\<open>triggerCount\<close> among its dependencies, so after a run that
  changed the counter the component renders again and the effect runs again on the
  same landmarks, until a run leaves the counter as it is. \<open>effectRuns\<close> is what one
  video frame causes: the counter after the last of these runs and the effects of
  all of them.
\<close>

function effectRuns :: "nat \<Rightarrow> Landmark list list \<Rightarrow> nat \<Rightarrow> nat \<times> effect list" where
  "effectRuns n sortedLms triggerCount =
     (if fst (startEffect n sortedLms triggerCount) = triggerCount
      then startEffect n sortedLms triggerCount
      else (fst (effectRuns n sortedLms (fst (startEffect n sortedLms triggerCount))),
            snd (startEffect n sortedLms triggerCount) @
            snd (effectRuns n sortedLms (fst (startEffect n sortedLms triggerCount)))))"
  by pat_completeness auto
termination
  by (relation "measure (\<lambda>(n, sortedLms, c). if startHit sortedLms [0..<n] then 22 - c else c)")
     (auto simp: startEffect_def split: if_splits)

declare effectRuns.simps [simp del]

definition motionStartFrame :: "nat \<Rightarrow> Landmark list list \<Rightarrow> nat \<Rightarrow> nat \<times> effect list" where
  "motionStartFrame n landmarks triggerCount =
     effectRuns n (sortedLandmarks landmarks) triggerCount"

text \<open>
  The counter after the effect has run on each frame of a list in turn. A run of the
  effect is one evaluation tick; the effect also runs again when \<^verbatim>\<open>triggerCount\<close>
  has changed, on the landmarks of the same video frame, so a list of ticks may hold
  the same frame several times in a row.
\<close>

fun countAfter :: "nat \<Rightarrow> Landmark list list list \<Rightarrow> nat \<Rightarrow> nat" where
  "countAfter n [] c = c"
| "countAfter n (f # fs) c = countAfter n fs (fst (motionStartTick n f c))"

text \<open>The timers an effect list schedules: delay in milliseconds and callback.\<close>

fun timeouts :: "effect list \<Rightarrow> (nat \<times> callback) list" where
  "timeouts [] = []"
| "timeouts (SetTimeout d cb # es) = (d, cb) # timeouts es"
| "timeouts (PlaySound v # es) = timeouts es"
| "timeouts (Speak m # es) = timeouts es"
| "timeouts (CallOnExit # es) = timeouts es"
| "timeouts (CallOnStart # es) = timeouts es"

section \<open>Sessions as sequences of transitions\<close>







section \<open>Runs of the start screen\<close>

text \<open>
  What one frame is to the start-button effect: nobody detected (the effect returns
  at once), a collision of some active player with the button, or no collision.
\<close>

datatype frame_kind = NoPerson | Collision | NoCollision

definition frameKind :: "nat \<Rightarrow> Landmark list list \<Rightarrow> frame_kind" where
  "frameKind n landmarks =
     (if sortedLandmarks landmarks = [] then NoPerson
      else if startHit (sortedLandmarks landmarks) [0..<n] then Collision
      else NoCollision)"

text \<open>
  The length of the current hold, starting from \<open>h\<close>: the number of frames with a
  collision since the last frame in which somebody was detected without a collision.
\<close>

fun holdTicks :: "nat \<Rightarrow> Landmark list list list \<Rightarrow> nat \<Rightarrow> nat" where
  "holdTicks n [] h = h"
| "holdTicks n (f # fs) h =
     holdTicks n fs
       (case frameKind n f of NoPerson \<Rightarrow> h | Collision \<Rightarrow> h + 1 | NoCollision \<Rightarrow> 0)"

section \<open>Example data\<close>

definition word_a :: WordItem where
  "word_a = \<lparr>id_item = ''a'', word = ''ping guo'', english = ''apple'', emoji = ''A'',
             image_item = None, soundAudio = None\<rparr>"

definition word_b :: WordItem where
  "word_b = \<lparr>id_item = ''b'', word = ''xiang jiao'', english = ''banana'', emoji = ''B'',
             image_item = None, soundAudio = None\<rparr>"

definition word_c :: WordItem where
  "word_c = \<lparr>id_item = ''c'', word = ''mao'', english = ''cat'', emoji = ''C'',
             image_item = None, soundAudio = None\<rparr>"

definition unit_of :: "WordItem list \<Rightarrow> GameUnit" where
  "unit_of ws = \<lparr>id_unit = ''u1'', title = ''Unit 1'', color = ''red'', icon = ''U'',
                 words = ws\<rparr>"

definition props_of :: "WordItem list \<Rightarrow> nat \<Rightarrow> GameLevelProps" where
  "props_of ws n = \<lparr>unit_prop = unit_of ws, numPlayers = n, gameMode = classic\<rparr>"

text \<open>A session of three words in its first round, options already set up.\<close>

definition example_props :: GameLevelProps where
  "example_props = props_of [word_a, word_b, word_c] 2"

definition example_state :: GameLevelState where
  "example_state = initialState\<lparr>options := [word_b, word_a, word_c]\<rparr>"

text \<open>A tracked nose at the position \<open>(x, y)\<close> of the camera image.\<close>

definition nose_at :: "real \<Rightarrow> real \<Rightarrow> Landmark" where
  "nose_at x y = \<lparr>x_lm = x, y_lm = y, z_lm = 0, visibility = 1\<rparr>"

text \<open>A unit with a single word, played by two players.\<close>

definition single_props :: GameLevelProps where
  "single_props = props_of [word_a] 2"

definition single_state :: GameLevelState where
  "single_state = initialState\<lparr>options := [word_a]\<rparr>"



text \<open>
  A frame with two persons, each with the head on the centre of the middle box of
  their half of the screen (in \<open>example_state\<close> the box of the target \<open>word_a\<close>).
\<close>

definition both_on_target :: "Landmark list list" where
  "both_on_target = [[nose_at (1/4) (21/50)], [nose_at (3/4) (21/50)]]"

text \<open>A frame with one person whose head is on the centre of the start button.\<close>

definition hit_frame :: "Landmark list list" where
  "hit_frame = [[nose_at (1/2) (21/50)]]"

section \<open>Properties of option generation\<close>

lemma is_shuffle_mset: "is_shuffle f \<Longrightarrow> mset (f xs) = mset xs"
  by (simp add: is_shuffle_def)

lemma is_shuffle_set: "is_shuffle f \<Longrightarrow> set (f xs) = set xs"
  by (metis is_shuffle_mset set_mset_mset)

lemma is_shuffle_length: "is_shuffle f \<Longrightarrow> length (f xs) = length xs"
  by (metis is_shuffle_mset size_mset)

lemma is_shuffle_rev: "is_shuffle rev"
  by (simp add: is_shuffle_def)

lemma is_shuffle_id: "is_shuffle (\<lambda>xs. xs)"
  by (simp add: is_shuffle_def)

lemma mset_generateOptions:
  assumes "is_shuffle shuffle1" and "is_shuffle shuffle2"
  shows "mset (generateOptions shuffle1 shuffle2 allWords correctWord) =
         mset (take 2 (shuffle1 (filter (\<lambda>w. id_item w \<noteq> id_item correctWord) allWords)))
           + {#correctWord#}"
  using assms by (simp add: generateOptions_def Let_def is_shuffle_mset)

lemma distractors_differ:
  assumes "is_shuffle shuffle1"
    and "w \<in> set (take 2 (shuffle1 (filter (\<lambda>w. id_item w \<noteq> id_item c) allWords)))"
  shows "id_item w \<noteq> id_item c"
proof -
  from assms(2) have "w \<in> set (shuffle1 (filter (\<lambda>w. id_item w \<noteq> id_item c) allWords))"
    by (rule in_set_takeD)
  with assms(1) have "w \<in> set (filter (\<lambda>w. id_item w \<noteq> id_item c) allWords)"
    by (simp add: is_shuffle_set)
  then show ?thesis by simp
qed

lemma count_target_generateOptions:
  assumes "is_shuffle shuffle1" and "is_shuffle shuffle2"
  shows "length (filter (\<lambda>w. id_item w = id_item c)
           (generateOptions shuffle1 shuffle2 allWords c)) = 1"
proof -
  let ?P = "\<lambda>w. id_item w = id_item c"
  let ?ds = "take 2 (shuffle1 (filter (\<lambda>w. id_item w \<noteq> id_item c) allWords))"
  have none: "filter ?P ?ds = []"
    using distractors_differ [OF assms(1)] by (auto simp: filter_empty_conv)
  have "length (filter ?P (generateOptions shuffle1 shuffle2 allWords c)) =
        size (filter_mset ?P (mset (generateOptions shuffle1 shuffle2 allWords c)))"
    by (metis mset_filter size_mset)
  also have "\<dots> = size (filter_mset ?P (mset ?ds + {#c#}))"
    by (simp only: mset_generateOptions [OF assms])
  also have "\<dots> = size (mset (filter ?P ?ds)) + 1"
    by (simp only: filter_union_mset mset_filter [symmetric]) simp
  also have "\<dots> = 1"
    by (simp only: none) simp
  finally show ?thesis .
qed

text \<open>
  Claim C5. For every word list whose item ids are pairwise distinct and every target
  word taken from that list, the generated option set contains exactly one item whose
  id equals the id of the target, whatever the two shuffles do.
\<close>

theorem generateOptions_exactly_one_target:
  assumes "is_shuffle shuffle1" and "is_shuffle shuffle2"
    and "distinct (map id_item allWords)" and "target \<in> set allWords"
  shows "length (filter (\<lambda>w. id_item w = id_item target)
           (generateOptions shuffle1 shuffle2 allWords target)) = 1"
  using assms(1,2) by (rule count_target_generateOptions)

theorem generateOptions_exactly_one_target_witness:
  "is_shuffle (rev :: WordItem list \<Rightarrow> WordItem list) \<and>
   distinct (map id_item [word_a, word_b, word_c]) \<and>
   word_b \<in> set [word_a, word_b, word_c] \<and>
   length (filter (\<lambda>w. id_item w = id_item word_b)
     (generateOptions rev rev [word_a, word_b, word_c] word_b)) = 1"
proof -
  have d: "distinct (map id_item [word_a, word_b, word_c])"
    by (simp add: word_a_def word_b_def word_c_def)
  have m: "word_b \<in> set [word_a, word_b, word_c]"
    by simp
  from generateOptions_exactly_one_target [OF is_shuffle_rev is_shuffle_rev d m]
  show ?thesis using d m is_shuffle_rev by blast
qed

text \<open>
  Claim C9. For a word list with at least one word but fewer than three and a target
  taken from it, option generation returns a list (the function has no failing
  branch): the target together with every word of the list whose id differs from the
  target's, which are fewer than two distractors.
\<close>

theorem generateOptions_few_words:
  assumes "is_shuffle shuffle1" and "is_shuffle shuffle2"
    and "target \<in> set allWords" and "length allWords < 3"
  shows "mset (generateOptions shuffle1 shuffle2 allWords target) =
           mset (filter (\<lambda>w. id_item w \<noteq> id_item target) allWords) + {#target#} \<and>
         length (filter (\<lambda>w. id_item w \<noteq> id_item target) allWords) < 2 \<and>
         length (generateOptions shuffle1 shuffle2 allWords target) < 3"
proof -
  let ?others = "filter (\<lambda>w. id_item w \<noteq> id_item target) allWords"
  have "length ?others < length allWords"
    using assms(3) by (intro length_filter_less [of target]) simp_all
  with assms(4) have few: "length ?others < 2" by simp
  then have "length (shuffle1 ?others) \<le> 2"
    using assms(1) by (simp add: is_shuffle_length)
  then have all: "take 2 (shuffle1 ?others) = shuffle1 ?others" by simp
  have m: "mset (generateOptions shuffle1 shuffle2 allWords target) = mset ?others + {#target#}"
    using assms(1,2) by (simp add: mset_generateOptions all is_shuffle_mset)
  have "size (mset (generateOptions shuffle1 shuffle2 allWords target)) =
        size (mset ?others) + 1"
    by (simp only: m) simp
  then have "length (generateOptions shuffle1 shuffle2 allWords target) = length ?others + 1"
    by (simp only: size_mset)
  then have "length (generateOptions shuffle1 shuffle2 allWords target) < 3"
    using few by simp
  with m few show ?thesis by blast
qed

theorem generateOptions_few_words_witness:
  "is_shuffle (rev :: WordItem list \<Rightarrow> WordItem list) \<and>
   word_a \<in> set [word_a, word_b] \<and> length [word_a, word_b] < 3 \<and>
   mset (generateOptions rev rev [word_a, word_b] word_a) =
     mset (filter (\<lambda>w. id_item w \<noteq> id_item word_a) [word_a, word_b]) + {#word_a#} \<and>
   length (filter (\<lambda>w. id_item w \<noteq> id_item word_a) [word_a, word_b]) < 2 \<and>
   length (generateOptions rev rev [word_a, word_b] word_a) < 3"
proof -
  have m: "word_a \<in> set [word_a, word_b]" by simp
  have l: "length [word_a, word_b] < 3" by simp
  from generateOptions_few_words [OF is_shuffle_rev is_shuffle_rev m l]
  show ?thesis using m l is_shuffle_rev by blast
qed

section \<open>Properties of the game state machine\<close>

lemma currentTarget_cong:
  "currentWordIndex s' = currentWordIndex s \<Longrightarrow> currentTarget p s' = currentTarget p s"
  by (simp add: currentTarget_def)

lemma optionsEffect_same_target:
  "currentWordIndex s' = currentWordIndex s \<Longrightarrow>
   optionsEffect shuffle1 shuffle2 p (Some s) s' = (s', [])"
  by (simp add: optionsEffect_def targetRef_def)

lemma handleSelection_not_playing:
  "gameState r \<noteq> playing \<Longrightarrow> handleSelection p now r selected playerIdx x y s = Inr (s, [])"
  by (simp add: handleSelection_def)

lemma runSelections_not_playing:
  "gameState r \<noteq> playing \<Longrightarrow> runSelections p now r sels (s, effs) = Inr (s, effs)"
  by (induction sels) (auto simp: handleSelection_not_playing)

text \<open>
  One call of \<^verbatim>\<open>handleSelection\<close> by the handler of the current render, taken alone.
  In phase \<open>playing\<close>, a selection whose option id equals the id of the current
  target sets the phase to \<open>feedback_correct\<close>, records the acting player as winner
  and adds 1 to exactly that player's score; the other scores, the word index, the
  target word and the option set stay as they are, and the timers it schedules are
  the explosion cleanup and \<^verbatim>\<open>nextLevel\<close> after 2000 ms.
\<close>

lemma handleSelection_correct:
  assumes "gameState s = playing"
    and "currentTarget p s = Some target"
    and "id_item selected = id_item target"
    and "playerIdx < length (scores s)"
    and "scores s ! playerIdx = Num k"
  shows "\<exists>s' effs.
           handleSelection p now s selected playerIdx x y s = Inr (s', effs) \<and>
           gameState s' = feedback_correct \<and>
           winner s' = Some playerIdx \<and>
           scores s' = (scores s)[playerIdx := Num (k + 1)] \<and>
           currentWordIndex s' = currentWordIndex s \<and>
           currentTarget p s' = Some target \<and>
           options s' = options s \<and>
           optionsEffect shuffle1 shuffle2 p (Some s) s' = (s', []) \<and>
           timeouts effs = [(1000, CbExplosionCleanup now), (2000, CbNextLevel s)] \<and>
           scores (fst (runCallback p (CbExplosionCleanup now) s')) = scores s' \<and>
           gameState (fst (runCallback p (CbExplosionCleanup now) s')) = feedback_correct \<and>
           currentWordIndex (fst (runCallback p (CbExplosionCleanup now) s')) = currentWordIndex s \<and>
           options (fst (runCallback p (CbExplosionCleanup now) s')) = options s"
proof -
  define s' where "s' = s\<lparr>gameState := feedback_correct, winner := Some playerIdx,
      scores := (scores s)[playerIdx := Num (k + 1)],
      feedbackMessage := (if numPlayers p > 1 then MsgPlayerWon (playerIdx + 1) else MsgGreat),
      explosions := explosions s @ [\<lparr>id_ex = now, x_ex = x, y_ex = y\<rparr>]\<rparr>"
  define effs where "effs = [SetTimeout 1000 (CbExplosionCleanup now), PlaySound SndCorrect,
      Speak (MsgFound (word selected)), SetTimeout 2000 (CbNextLevel s)]"
  have new: "js_set (scores s) playerIdx (js_add1 (js_get (scores s) playerIdx)) =
             (scores s)[playerIdx := Num (k + 1)]"
    using assms(4,5) by (simp add: js_set_def js_get_def)
  have run: "handleSelection p now s selected playerIdx x y s = Inr (s', effs)"
    using assms(1,2,3) by (simp add: handleSelection_def Let_def new s'_def effs_def)
  have idx: "currentWordIndex s' = currentWordIndex s"
    by (simp add: s'_def)
  have tgt: "currentTarget p s' = currentTarget p s"
    using idx by (rule currentTarget_cong)
  have opt: "optionsEffect shuffle1 shuffle2 p (Some s) s' = (s', [])"
    using idx by (rule optionsEffect_same_target)
  have fields: "gameState s' = feedback_correct" "winner s' = Some playerIdx"
    "scores s' = (scores s)[playerIdx := Num (k + 1)]" "options s' = options s"
    by (simp_all add: s'_def)
  have tm: "timeouts effs = [(1000, CbExplosionCleanup now), (2000, CbNextLevel s)]"
    by (simp add: effs_def)
  have cleanup: "scores (fst (runCallback p (CbExplosionCleanup now) s')) = scores s'"
    "gameState (fst (runCallback p (CbExplosionCleanup now) s')) = feedback_correct"
    "currentWordIndex (fst (runCallback p (CbExplosionCleanup now) s')) = currentWordIndex s"
    "options (fst (runCallback p (CbExplosionCleanup now) s')) = options s"
    by (simp_all add: s'_def)
  show ?thesis
    using run fields idx tgt assms(2) opt tm cleanup by (intro exI [of _ s'] exI [of _ effs]) simp
qed



text \<open>
  The guard of \<^verbatim>\<open>handleSelection\<close> and of the collision loop reads the phase of the
  render they belong to. When that phase is not \<open>playing\<close>, every sequence of calls
  leaves the state and the scheduled effects as they were, and the collision loop
  makes no call.
\<close>

lemma selections_ignored_outside_playing:
  assumes "gameState r \<noteq> playing"
  shows "runSelections p now r sels (s, effs) = Inr (s, effs) \<and>
         collisionSelections ct p r sortedLms = [] \<and>
         collisionEffect ct p now r sortedLms = Inr (r, [])"
  using assms
  by (simp add: runSelections_not_playing collisionSelections_def collisionEffect_def)

lemma nextLevel_announcement:
  "\<not> int (currentWordIndex r) < int (length (words (unit_prop p))) - 1 \<Longrightarrow>
   snd (nextLevel p r s) = [Speak (finalMsg p (scores r)), SetTimeout 4000 CbOnExit]"
  by (simp add: nextLevel_def Let_def)

text \<open>
  Claim C3. The final announcement is computed by \<^verbatim>\<open>nextLevel\<close> of the render in
  which the last word was answered, whose \<^verbatim>\<open>scores\<close> do not yet hold the point of
  that round. In a unit of one word played by two players, player one answers
  correctly: the score board then shows 1 to 0, and the announcement is the tie.
\<close>

theorem final_announcement_misses_last_point:
  "\<exists>s1 effs s2.
     handleSelection single_props 7 single_state word_a 0 (1/12) 0.3 single_state
       = Inr (s1, effs) \<and>
     scores s1 = [Num 1, Num 0] \<and>
     timeouts effs = [(1000, CbExplosionCleanup 7), (2000, CbNextLevel single_state)] \<and>
     runCallback single_props (CbNextLevel single_state) s1
       = (s2, [Speak MsgTie, SetTimeout 4000 CbOnExit]) \<and>
     scores s2 = [Num 1, Num 0]"
  by (simp add: handleSelection_def currentTarget_def single_props_def single_state_def
      props_of_def unit_of_def initialState_def js_get_def js_set_def nextLevel_def
      finalMsg_def Let_def)

section \<open>Properties of the landmark sorter\<close>

lemma sortedLandmarks_sorted_by_sortKey:
  "sorted (map sortKey (sortedLandmarks landmarks)) \<and>
   mset (sortedLandmarks landmarks) = mset landmarks"
  by (simp add: sortedLandmarks_def)

text \<open>
  Claim C8. Two persons, the first with \<open>nose.x = 0\<close> (mirrored position 1), the
  second with \<open>nose.x = 0.3\<close> (mirrored position 0.7): the sorter keeps the first in
  front, so its result is not ascending by the mirrored nose position.
\<close>

theorem sortedLandmarks_zero_x_misplaced:
  "sortedLandmarks [[nose_at 0 0.5], [nose_at 0.3 0.5]] = [[nose_at 0 0.5], [nose_at 0.3 0.5]] \<and>
   map spec_mirroredNoseX (sortedLandmarks [[nose_at 0 0.5], [nose_at 0.3 0.5]]) = [1, 0.7] \<and>
   \<not> sorted (map spec_mirroredNoseX (sortedLandmarks [[nose_at 0 0.5], [nose_at 0.3 0.5]]))"
proof -
  have kept: "sortedLandmarks [[nose_at 0 0.5], [nose_at 0.3 0.5]]
      = [[nose_at 0 0.5], [nose_at 0.3 0.5]]"
    by (simp add: sortedLandmarks_def sortKey_def nose_at_def)
  have keys: "map spec_mirroredNoseX [[nose_at 0 0.5], [nose_at 0.3 0.5]] = [1, 0.7]"
    by (simp add: spec_mirroredNoseX_def nose_at_def)
  have "\<not> (1::real) \<le> 0.7" by simp
  then have unsorted: "\<not> sorted [1, 0.7::real]"
    by (simp only: sorted_wrt.simps list.set ball_simps) simp
  show ?thesis
    by (simp only: kept keys unsorted) simp
qed

section \<open>Properties of the start screen\<close>

lemma visibility_nose_at: "visibility (nose_at x y) = 1"
  by (simp add: nose_at_def)

lemma buttonTest_hit: "buttonTest (nose_at (1/2) (21/50))"
  unfolding buttonTest_def nose_at_def Let_def by simp

lemma sortedLandmarks_single: "sortedLandmarks [a] = [a]"
  by (simp add: sortedLandmarks_def)

lemma frameKind_hit: "frameKind 1 hit_frame = Collision"
  by (simp add: frameKind_def sortedLandmarks_single hit_frame_def buttonTest_hit
      visibility_nose_at)

lemma frameKind_empty: "frameKind n [] = NoPerson"
  by (simp add: frameKind_def sortedLandmarks_def)

lemma motionStartTick_count:
  "fst (motionStartTick n f c) =
     (case frameKind n f of
        NoPerson \<Rightarrow> c
      | Collision \<Rightarrow> if c > 20 then c else c + 1
      | NoCollision \<Rightarrow> 0)"
  by (simp add: motionStartTick_def startEffect_def frameKind_def)

lemma motionStartTick_fires:
  "(CallOnStart \<in> set (snd (motionStartTick n f c))) = (frameKind n f = Collision \<and> c > 20)"
  by (simp add: motionStartTick_def startEffect_def frameKind_def)

lemma countAfter_min: "countAfter n fs (min 21 h) = min 21 (holdTicks n fs h)"
proof (induction fs arbitrary: h)
  case Nil
  show ?case by simp
next
  case (Cons f fs)
  show ?case
  proof (cases "frameKind n f")
    case NoPerson
    then show ?thesis using Cons.IH [of h] by (simp add: motionStartTick_count)
  next
    case Collision
    have "(if min 21 h > 20 then min 21 h else min 21 h + 1) = min 21 (h + 1)"
      by auto
    with Collision show ?thesis using Cons.IH [of "h + 1"] by (simp add: motionStartTick_count)
  next
    case NoCollision
    then show ?thesis using Cons.IH [of 0] by (simp add: motionStartTick_count)
  qed
qed

lemma countAfter_from_zero: "countAfter n fs 0 = min 21 (holdTicks n fs 0)"
  using countAfter_min [of n fs 0] by simp

lemma holdTicks_append: "holdTicks n (fs @ gs) h = holdTicks n gs (holdTicks n fs h)"
  by (induction fs arbitrary: h) simp_all

lemma holdTicks_hits: "holdTicks 1 (replicate k hit_frame) h = h + k"
  by (induction k arbitrary: h) (simp_all add: frameKind_hit del: One_nat_def)

text \<open>
  Runs of the effect, one by one. After 21 runs with a collision the counter is 21;
  a run in which nobody is detected returns before the reset and leaves the counter
  at 21; the next run with a collision calls \<^verbatim>\<open>onStart\<close>.
\<close>

lemma motionStart_empty_run_keeps_hold:
  "countAfter 1 (replicate 21 hit_frame) 0 = 21 \<and>
   motionStartTick 1 [] 21 = (21, []) \<and>
   countAfter 1 (replicate 21 hit_frame @ [[]]) 0 = 21 \<and>
   motionStartTick 1 hit_frame (countAfter 1 (replicate 21 hit_frame @ [[]]) 0)
     = (21, [PlaySound SndCorrect, CallOnStart])"
proof -
  have a: "countAfter 1 (replicate 21 hit_frame) 0 = 21"
    by (simp add: countAfter_from_zero holdTicks_hits del: One_nat_def)
  have b: "motionStartTick 1 [] 21 = (21, [])"
    by (simp add: motionStartTick_def startEffect_def sortedLandmarks_def)
  have "holdTicks 1 (replicate 21 hit_frame @ [[]]) 0 = 21"
    by (simp add: holdTicks_append holdTicks_hits frameKind_empty del: One_nat_def)
  then have c: "countAfter 1 (replicate 21 hit_frame @ [[]]) 0 = 21"
    by (simp add: countAfter_from_zero del: One_nat_def)
  have d: "motionStartTick 1 hit_frame 21 = (21, [PlaySound SndCorrect, CallOnStart])"
    using frameKind_hit by (simp add: motionStartTick_def startEffect_def frameKind_def
        split: if_splits)
  show ?thesis
    by (simp only: a b c d)
qed

text \<open>
  A run in which somebody is detected and nobody collides with the start button
  resets the counter to 0, a run in which nobody is detected leaves it as it is, and
  a run with a collision adds 1 up to 21. From counter 0, \<^verbatim>\<open>onStart\<close> is called in
  a run exactly when that run has a collision and at least 21 runs with a collision
  came before it since the last run with a detected person and no collision.
\<close>

lemma motionStart_fires_on_22nd_run:
  "fst (motionStartTick n f c) =
     (case frameKind n f of
        NoPerson \<Rightarrow> c
      | Collision \<Rightarrow> if c > 20 then c else c + 1
      | NoCollision \<Rightarrow> 0) \<and>
   countAfter n fs 0 = min 21 (holdTicks n fs 0) \<and>
   (CallOnStart \<in> set (snd (motionStartTick n f (countAfter n fs 0))))
     = (frameKind n f = Collision \<and> 21 \<le> holdTicks n fs 0)"
proof -
  have "(20 < min 21 (holdTicks n fs 0)) = (21 \<le> holdTicks n fs 0)"
    by auto
  then show ?thesis
    by (simp only: motionStartTick_count motionStartTick_fires countAfter_from_zero)
qed

lemma startHit_hit_frame: "startHit hit_frame [0..<1]"
  by (simp add: hit_frame_def buttonTest_hit visibility_nose_at)

lemma startEffect_hit_low:
  "sl \<noteq> [] \<Longrightarrow> startHit sl [0..<n] \<Longrightarrow> c \<le> 20 \<Longrightarrow> startEffect n sl c = (c + 1, [])"
  by (simp add: startEffect_def)

lemma startEffect_hit_high:
  "sl \<noteq> [] \<Longrightarrow> startHit sl [0..<n] \<Longrightarrow> 20 < c \<Longrightarrow>
   startEffect n sl c = (c, [PlaySound SndCorrect, CallOnStart])"
  by (simp add: startEffect_def)

text \<open>
  On landmarks with a collision the effect keeps re-running itself until it calls
  \<^verbatim>\<open>onStart\<close>, from any counter.
\<close>

lemma effectRuns_hit:
  assumes "sl \<noteq> []" and "startHit sl [0..<n]"
  shows "c \<le> 21 \<Longrightarrow> effectRuns n sl c = (21, [PlaySound SndCorrect, CallOnStart])"
proof (induction "21 - c" arbitrary: c)
  case 0
  then have c: "c = 21" by simp
  show ?case
    by (subst effectRuns.simps) (simp add: c startEffect_hit_high [OF assms])
next
  case (Suc k)
  then have low: "c \<le> 20" and next_le: "c + 1 \<le> 21" and k: "k = 21 - (c + 1)"
    by simp_all
  have step: "startEffect n sl c = (Suc c, [])"
    using startEffect_hit_low [OF assms low] by simp
  have rest: "effectRuns n sl (Suc c) = (21, [PlaySound SndCorrect, CallOnStart])"
    using Suc.hyps(1) [OF k next_le] by simp
  show ?case
    by (subst effectRuns.simps) (simp add: step rest)
qed

text \<open>
  Claim C10. One single video frame in which the head of the player is on the start
  button, arriving at counter 0: the effect changes \<^verbatim>\<open>triggerCount\<close>, which is one of
  its own dependencies, so it runs again on the same landmarks, 22 times in all, and
  calls \<^verbatim>\<open>onStart\<close>. An isolated collision of one frame starts the game; no hold over
  22 frames (the \<^verbatim>\<open>~0.5 seconds hold\<close> of the source comment) is needed.
\<close>

theorem single_frame_collision_starts_game:
  "motionStartTick 1 hit_frame 0 = (1, []) \<and>
   motionStartFrame 1 hit_frame 0 = (21, [PlaySound SndCorrect, CallOnStart])"
proof -
  have ne: "sortedLandmarks hit_frame \<noteq> []"
    by (simp add: hit_frame_def sortedLandmarks_single)
  have hit: "startHit (sortedLandmarks hit_frame) [0..<1]"
    using startHit_hit_frame by (simp add: hit_frame_def sortedLandmarks_single)
  have first: "motionStartTick 1 hit_frame 0 = (1, [])"
    unfolding motionStartTick_def using startEffect_hit_low [OF ne hit, of 0] by simp
  have all: "motionStartFrame 1 hit_frame 0 = (21, [PlaySound SndCorrect, CallOnStart])"
    unfolding motionStartFrame_def by (rule effectRuns_hit [OF ne hit]) simp
  show ?thesis
    using first all by (rule conjI)
qed

section \<open>Properties of the collision loop\<close>

lemma sqrt_less_iff_square: "0 < t \<Longrightarrow> (sqrt a < t) = (a < t * t)"
  by (metis abs_of_pos real_sqrt_abs2 real_sqrt_less_iff)

lemma zoneChecks_length: "length (zoneChecks ct n opts playerIdx nose) = length opts"
  by (simp add: zoneChecks_def)

lemma zoneChecks_options: "map (fst \<circ> fst) (zoneChecks ct n opts playerIdx nose) = opts"
proof -
  have "map (fst \<circ> fst) (zoneChecks ct n opts playerIdx nose) = map snd (enumerate 0 opts)"
    by (simp add: zoneChecks_def comp_def case_prod_beta)
  then show ?thesis by simp
qed

lemma zoneChecks_hit:
  assumes "boxIdx < length opts" and "zoneTest ct n playerIdx nose boxIdx"
  shows "(opts ! boxIdx, playerIdx, boxCX n playerIdx boxIdx, boxCY)
         \<in> set (map fst (filter snd (zoneChecks ct n opts playerIdx nose)))"
proof -
  have "(boxIdx, opts ! boxIdx) \<in> set (enumerate 0 opts)"
    using assms(1) by (simp add: in_set_enumerate_eq)
  then have "((opts ! boxIdx, playerIdx, boxCX n playerIdx boxIdx, boxCY), True)
             \<in> set (zoneChecks ct n opts playerIdx nose)"
    using assms(2) by (force simp: zoneChecks_def)
  then show ?thesis by force
qed

text \<open>
  Claim C7, as stated, fails: with \<^verbatim>\<open>COLLISION_THRESHOLD\<close> = 0.15 and two players,
  the head of player one midway between the first two boxes of the left half is
  within the threshold of both. All three boxes are tested, and one tick emits two
  selection events for that player.
\<close>

theorem collision_tests_every_zone:
  "zoneChecks 0.15 2 [word_b, word_a, word_c] 0 (nose_at (5/6) 0.42)
     = [((word_b, 0, 1/12, 0.3), True), ((word_a, 0, 1/4, 0.3), True),
        ((word_c, 0, 5/12, 0.3), False)] \<and>
   collisionSelections 0.15 example_props example_state [[nose_at (5/6) 0.42]]
     = [(word_b, 0, 1/12, 0.3), (word_a, 0, 1/4, 0.3)]"
proof -
  have checks: "zoneChecks 0.15 2 [word_b, word_a, word_c] 0 (nose_at (5/6) 0.42)
     = [((word_b, 0, 1/12, 0.3), True), ((word_a, 0, 1/4, 0.3), True),
        ((word_c, 0, 5/12, 0.3), False)]"
    by (simp add: zoneChecks_def zoneTest_def boxCX_def boxCY_def nose_at_def Let_def
        sqrt_less_iff_square)
  have st: "gameState example_state = playing" "options example_state = [word_b, word_a, word_c]"
    "numPlayers example_props = 2"
    by (simp_all add: example_state_def initialState_def example_props_def props_of_def)
  have up: "[0..<2] = [0, 1]"
    by (simp add: upt_rec)
  have sel: "collisionSelections 0.15 example_props example_state [[nose_at (5/6) 0.42]]
     = [(word_b, 0, 1/12, 0.3), (word_a, 0, 1/4, 0.3)]"
    unfolding collisionSelections_def st up
    by (simp add: playerSelections_def zoneChecks_def zoneTest_def boxCX_def boxCY_def
        nose_at_def Let_def sqrt_less_iff_square)
  show ?thesis
    using checks sel by (rule conjI)
qed

text \<open>
  Claim C7, amended. In phase \<open>playing\<close>, for every active player whose nose is
  tracked, every displayed option is tested, and each box whose centre lies within
  the threshold of that player's head yields a selection event for its option,
  whatever the other boxes and the other players do; all the calls of one tick are
  made by the handler of the same render, before any state update is applied.
\<close>

theorem collision_emits_selection:
  assumes "gameState r = playing"
    and "playerIdx < numPlayers p"
    and "playerIdx < length sortedLms"
    and "sortedLms ! playerIdx = nose # rest"
    and "visibility nose > 0.5"
    and "boxIdx < length (options r)"
    and "zoneTest ct (numPlayers p) playerIdx nose boxIdx"
  shows "(options r ! boxIdx, playerIdx, boxCX (numPlayers p) playerIdx boxIdx, boxCY)
           \<in> set (collisionSelections ct p r sortedLms) \<and>
         map (fst \<circ> fst) (zoneChecks ct (numPlayers p) (options r) playerIdx nose) = options r \<and>
         collisionEffect ct p now r sortedLms
           = runSelections p now r (collisionSelections ct p r sortedLms) (r, [])"
proof -
  let ?e = "(options r ! boxIdx, playerIdx, boxCX (numPlayers p) playerIdx boxIdx, boxCY)"
  have ne: "sortedLms \<noteq> []"
    using assms(3) by auto
  have "?e \<in> set (playerSelections ct (numPlayers p) (options r) sortedLms playerIdx)"
    using assms(3,4,5) zoneChecks_hit [OF assms(6,7)]
    by (simp add: playerSelections_def)
  moreover have "playerIdx \<in> set [0..<numPlayers p]"
    using assms(2) by simp
  ultimately have "?e \<in> set (concat (map (playerSelections ct (numPlayers p) (options r) sortedLms)
      [0..<numPlayers p]))"
    unfolding set_concat by (intro UN_I [of "playerSelections ct (numPlayers p) (options r) sortedLms playerIdx"]) auto
  then have "?e \<in> set (collisionSelections ct p r sortedLms)"
    using assms(1) ne by (simp add: collisionSelections_def)
  then show ?thesis
    by (simp add: zoneChecks_options collisionEffect_def)
qed

theorem collision_emits_selection_witness:
  "gameState example_state = playing \<and>
   0 < numPlayers example_props \<and>
   0 < length [[nose_at (5/6) (21/50)]] \<and>
   [[nose_at (5/6) (21/50)]] ! 0 = nose_at (5/6) (21/50) # [] \<and>
   visibility (nose_at (5/6) (21/50)) > 0.5 \<and>
   1 < length (options example_state) \<and>
   zoneTest (3/20) (numPlayers example_props) 0 (nose_at (5/6) (21/50)) 1 \<and>
   (options example_state ! 1, 0, boxCX (numPlayers example_props) 0 1, boxCY)
     \<in> set (collisionSelections (3/20) example_props example_state [[nose_at (5/6) (21/50)]])"
proof -
  have h1: "gameState example_state = playing"
    by (simp add: example_state_def initialState_def)
  have h2: "0 < numPlayers example_props"
    by (simp add: example_props_def props_of_def)
  have h3: "0 < length [[nose_at (5/6) (21/50)]]"
    by simp
  have h4: "[[nose_at (5/6) (21/50)]] ! 0 = nose_at (5/6) (21/50) # []"
    by simp
  have h5: "visibility (nose_at (5/6) (21/50)) > 0.5"
    by (simp add: visibility_nose_at)
  have h6: "1 < length (options example_state)"
    by (simp add: example_state_def initialState_def)
  have h7: "zoneTest (3/20) (numPlayers example_props) 0 (nose_at (5/6) (21/50)) 1"
    by (simp add: example_props_def props_of_def zoneTest_def boxCX_def boxCY_def nose_at_def
        Let_def sqrt_less_iff_square)
  from collision_emits_selection [OF h1 h2 h3 h4 h5 h6 h7]
  show ?thesis using h1 h2 h3 h4 h5 h6 h7 by blast
qed

section \<open>Two selections in one run of the collision loop\<close>

lemma sortedLandmarks_both_on_target:
  "sortedLandmarks both_on_target = [[nose_at (3/4) (21/50)], [nose_at (1/4) (21/50)]]"
  by (simp add: sortedLandmarks_def sortKey_def both_on_target_def nose_at_def)

lemma collisionSelections_both_on_target:
  "collisionSelections 0.15 example_props example_state
     [[nose_at (3/4) (21/50)], [nose_at (1/4) (21/50)]]
   = [(word_a, 0, 1/4, 0.3), (word_a, 1, 3/4, 0.3)]"
proof -
  have st: "gameState example_state = playing" "options example_state = [word_b, word_a, word_c]"
    "numPlayers example_props = 2"
    by (simp_all add: example_state_def initialState_def example_props_def props_of_def)
  have up: "[0..<2] = [0, 1]"
    by (simp add: upt_rec)
  show ?thesis
    unfolding collisionSelections_def st up
    by (simp add: playerSelections_def zoneChecks_def zoneTest_def boxCX_def boxCY_def
        nose_at_def Let_def sqrt_less_iff_square)
qed

lemma runSelections_both_on_target:
  "\<exists>s1 effs.
     runSelections example_props 7 example_state [(word_a, 0, 1/4, 0.3), (word_a, 1, 3/4, 0.3)]
       (example_state, []) = Inr (s1, effs) \<and>
     gameState s1 = feedback_correct \<and> winner s1 = Some 1 \<and> scores s1 = [Num 0, Num 1] \<and>
     timeouts effs = [(1000, CbExplosionCleanup 7), (2000, CbNextLevel example_state),
                      (1000, CbExplosionCleanup 7), (2000, CbNextLevel example_state)]"
  by (simp add: handleSelection_def currentTarget_def example_props_def example_state_def
      props_of_def unit_of_def initialState_def js_get_def js_set_def Let_def)

text \<open>
  Claim C1. Two players, the target \<open>word_a\<close> in the middle box, and one frame in
  which both heads are on the box of the target in their half of the screen (with
  \<^verbatim>\<open>COLLISION_THRESHOLD\<close> = 0.15; the heads are on the centres, so these two
  boxes are hit for any positive threshold). Player one's selection is a correct selection
  in phase \<open>playing\<close> and on its own gives scores 1 to 0 with player one as winner;
  the same run of the collision loop then handles player two's selection with the
  scores of the same render, and the tick ends with scores 0 to 1 and player two as
  winner, before any timer has fired: player one's score is not incremented.
\<close>

theorem same_tick_selection_loses_point:
  "sortedLandmarks both_on_target = [[nose_at (3/4) (21/50)], [nose_at (1/4) (21/50)]] \<and>
   collisionSelections 0.15 example_props example_state (sortedLandmarks both_on_target)
     = [(word_a, 0, 1/4, 0.3), (word_a, 1, 3/4, 0.3)] \<and>
   (\<exists>s0 effs0.
      handleSelection example_props 7 example_state word_a 0 (1/4) 0.3 example_state
        = Inr (s0, effs0) \<and>
      scores s0 = [Num 1, Num 0] \<and> winner s0 = Some 0) \<and>
   (\<exists>s1 effs.
      collisionEffect 0.15 example_props 7 example_state (sortedLandmarks both_on_target)
        = Inr (s1, effs) \<and>
      gameState s1 = feedback_correct \<and> winner s1 = Some 1 \<and> scores s1 = [Num 0, Num 1] \<and>
      timeouts effs = [(1000, CbExplosionCleanup 7), (2000, CbNextLevel example_state),
                       (1000, CbExplosionCleanup 7), (2000, CbNextLevel example_state)])"
proof -
  have first: "\<exists>s0 effs0.
      handleSelection example_props 7 example_state word_a 0 (1/4) 0.3 example_state
        = Inr (s0, effs0) \<and>
      scores s0 = [Num 1, Num 0] \<and> winner s0 = Some 0"
    by (simp add: handleSelection_def currentTarget_def example_props_def example_state_def
        props_of_def unit_of_def initialState_def js_get_def js_set_def Let_def)
  have tick: "\<exists>s1 effs.
      collisionEffect 0.15 example_props 7 example_state (sortedLandmarks both_on_target)
        = Inr (s1, effs) \<and>
      gameState s1 = feedback_correct \<and> winner s1 = Some 1 \<and> scores s1 = [Num 0, Num 1] \<and>
      timeouts effs = [(1000, CbExplosionCleanup 7), (2000, CbNextLevel example_state),
                       (1000, CbExplosionCleanup 7), (2000, CbNextLevel example_state)]"
    unfolding collisionEffect_def sortedLandmarks_both_on_target
      collisionSelections_both_on_target
    by (rule runSelections_both_on_target)
  have sels: "collisionSelections 0.15 example_props example_state
      (sortedLandmarks both_on_target) = [(word_a, 0, 1/4, 0.3), (word_a, 1, 3/4, 0.3)]"
    unfolding sortedLandmarks_both_on_target by (rule collisionSelections_both_on_target)
  show ?thesis
    using sortedLandmarks_both_on_target sels first tick by (intro conjI)
qed

text \<open>
  Claim C4. In the same tick, player one's selection has put the session into
  \<open>feedback_correct\<close> with scores 1 to 0. Player two's selection is delivered next, by
  the handler of the same render, whose guard still reads \<open>playing\<close>: it is not
  ignored. It changes the scores to 0 to 1 and the winner to player two, and
  schedules a second \<^verbatim>\<open>nextLevel\<close>; when the two timers have fired the word index
  is 2, where one correct answer moves it to 1.
\<close>

theorem selection_during_feedback_not_ignored:
  "\<exists>s1 effs1 s2 effs2.
     handleSelection example_props 7 example_state word_a 0 (1/4) 0.3 example_state
       = Inr (s1, effs1) \<and>
     gameState s1 = feedback_correct \<and> scores s1 = [Num 1, Num 0] \<and> winner s1 = Some 0 \<and>
     handleSelection example_props 7 example_state word_a 1 (3/4) 0.3 s1 = Inr (s2, effs2) \<and>
     scores s2 = [Num 0, Num 1] \<and> winner s2 = Some 1 \<and>
     timeouts effs2 = [(1000, CbExplosionCleanup 7), (2000, CbNextLevel example_state)] \<and>
     currentWordIndex (fst (runCallback example_props (CbNextLevel example_state) s2)) = 1 \<and>
     currentWordIndex (fst (runCallback example_props (CbNextLevel example_state)
       (fst (runCallback example_props (CbNextLevel example_state) s2)))) = 2"
  by (simp add: handleSelection_def currentTarget_def example_props_def example_state_def
      props_of_def unit_of_def initialState_def js_get_def js_set_def nextLevel_def Let_def)

section \<open>Properties of the word index\<close>




















end
